theory Spec2Isabelle
  imports Main
begin

section \<open>Data model\<close>

text \<open>
  Python values that travel in dicts (account data, HTTP error details, response
  bodies). A dict is an association list in insertion order; the empty dict is the
  empty list, which is what \<^verbatim>\<open>not user_data\<close> tests.
\<close>

datatype role = SYSTEM | MAIN | OtherRole string
  \<comment> \<open>\<^verbatim>\<open>Role\<close> is declared in \<^verbatim>\<open>Database.models\<close>; the sources name only
      \<^verbatim>\<open>Role.MAIN\<close> and \<^verbatim>\<open>Role.SYSTEM\<close>, the remaining members are \<open>OtherRole\<close>.\<close>

datatype pyval =
    PNone
  | PBool bool
  | PStr string
  | PRole role
  | PList "pyval list"
  | PDict "(string \<times> pyval) list"

type_synonym dict = "(string \<times> pyval) list"

datatype exn =
    SQLAlchemyError string
  | TypeError string
  | KeyError string
  | HTTPException nat dict

text \<open>
  Rows of the three tables the sources read and write. \<open>last_active\<close> is kept in whole
  seconds since the epoch, which is what \<^verbatim>\<open>check_current_user\<close> compares
  (\<^verbatim>\<open>int(time())\<close> against \<^verbatim>\<open>int(last_active_time.timestamp())\<close>).
  The profile columns of an account are declared in \<^verbatim>\<open>Database.models\<close> and are
  only copied around here, so they are arbitrary Python values.
\<close>

record login_session =
  xid :: string
  user_id :: string
  last_active :: int
  is_main_user :: bool

record account =
  id_account :: string
  email :: string
  password :: string
  role :: role
  user_name :: pyval
  birth_date :: pyval
  gender :: pyval
  address :: pyval

record family =
  id_family :: string
  main_user :: string
  family_name :: string

record tables =
  accounts :: "account list"
  families :: "family list"
  login_sessions :: "login_session list"

text \<open>
  The database as the functions see it: the committed tables, the view of the
  transaction of the ORM session that is open, the outcomes of the storage calls still
  to come (\<open>Some msg\<close>: the next call raises \<^verbatim>\<open>SQLAlchemyError(msg)\<close>; an exhausted
  script means every further call succeeds), and the lines printed so far.
\<close>

record db =
  committed :: tables
  working :: tables
  faults :: "string option list"
  printed :: "string list"

record config =
  session_expire_time :: int
  session_cleanup_interval :: int

definition default_config :: config where
  "default_config = \<lparr>session_expire_time = 1800, session_cleanup_interval = 600\<rparr>"

record request =
  cookies :: "string \<rightharpoonup> string"

section \<open>Control flow of the Python functions\<close>

text \<open>
  How a statement ends: it falls through, it returns a value, or it raises. A statement
  transforms the local variable of the function (\<^verbatim>\<open>result\<close>, \<^verbatim>\<open>user_id\<close>) and the
  database.
\<close>

datatype 'r completion = Normal | Return 'r | Raise exn

type_synonym ('l, 'r) stmt = "'l \<times> db \<Rightarrow> 'r completion \<times> 'l \<times> db"

definition skip :: "('l, 'r) stmt" where
  "skip s = (Normal, s)"

fun block :: "('l, 'r) stmt list \<Rightarrow> ('l, 'r) stmt" where
  "block [] s = (Normal, s)"
| "block (x # xs) s =
     (case x s of
        (Normal, s') \<Rightarrow> block xs s'
      | (c, s') \<Rightarrow> (c, s'))"

definition assign :: "'l \<Rightarrow> ('l, 'r) stmt" where
  "assign v s = (Normal, v, snd s)"

definition return_local :: "('l, 'l) stmt" where
  "return_local s = (Return (fst s), s)"

definition raise_exn :: "exn \<Rightarrow> ('l, 'r) stmt" where
  "raise_exn e s = (Raise e, s)"

definition print :: "string \<Rightarrow> ('l, 'r) stmt" where
  "print line s = (Normal, fst s, (snd s)\<lparr>printed := printed (snd s) @ [line]\<rparr>)"

text \<open>
  \<^verbatim>\<open>try: body  except SQLAlchemyError as error: handler  finally: final\<close>.
  The handler runs only for a \<^verbatim>\<open>SQLAlchemyError\<close> of the body. The finally clause
  always runs; when it returns or raises itself, that replaces whatever the body or
  the handler was about to do (a pending exception or return is dropped), and when it
  falls through, the pending completion stands.
\<close>

definition try_except_finally ::
  "('l, 'r) stmt \<Rightarrow> (string \<Rightarrow> ('l, 'r) stmt) \<Rightarrow> ('l, 'r) stmt \<Rightarrow> ('l, 'r) stmt" where
  "try_except_finally body handler final s =
     (let (c1, s1) = body s;
          (c2, s2) = (case c1 of
                        Raise (SQLAlchemyError error) \<Rightarrow> handler error s1
                      | _ \<Rightarrow> (c1, s1));
          (c3, s3) = final s2
      in case c3 of Normal \<Rightarrow> (c2, s3) | _ \<Rightarrow> (c3, s3))"

section \<open>The ORM session\<close>

text \<open>
  \<^verbatim>\<open>with database_pre_session() as session:\<close> opens a session on the committed
  tables and closes it on the way out, however the block ends; closing drops what was
  not committed.
\<close>

definition with_session :: "('l, 'r) stmt \<Rightarrow> ('l, 'r) stmt" where
  "with_session body s =
     (let (c, l, d) = body (fst s, (snd s)\<lparr>working := committed (snd s)\<rparr>)
      in (c, l, d\<lparr>working := committed d\<rparr>))"

text \<open>Every call that reaches the database takes the next outcome of the script.\<close>

definition storage_call :: "db \<Rightarrow> string option \<times> db" where
  "storage_call d =
     (case faults d of
        [] \<Rightarrow> (None, d)
      | f # fs \<Rightarrow> (f, d\<lparr>faults := fs\<rparr>))"

text \<open>\<^verbatim>\<open>session.query(...)....first()\<close> or \<^verbatim>\<open>.all()\<close>: a read, whose value the
  rest of the body uses.\<close>

definition query :: "(tables \<Rightarrow> 'a) \<Rightarrow> ('a \<Rightarrow> ('l, 'r) stmt) \<Rightarrow> ('l, 'r) stmt" where
  "query q k s =
     (case storage_call (snd s) of
        (Some msg, d) \<Rightarrow> (Raise (SQLAlchemyError msg), fst s, d)
      | (None, d) \<Rightarrow> k (q (working d)) (fst s, d))"

text \<open>\<^verbatim>\<open>session.query(...).filter(...).update({...})\<close>: a statement sent at once.\<close>

definition execute :: "(tables \<Rightarrow> tables) \<Rightarrow> ('l, 'r) stmt" where
  "execute u s =
     (case storage_call (snd s) of
        (Some msg, d) \<Rightarrow> (Raise (SQLAlchemyError msg), fst s, d)
      | (None, d) \<Rightarrow> (Normal, fst s, d\<lparr>working := u (working d)\<rparr>))"

text \<open>
  \<^verbatim>\<open>session.add\<close> and \<^verbatim>\<open>session.delete\<close> only mark the object (the session is
  created with \<^verbatim>\<open>autoflush=False\<close>): they reach the database when the session
  commits. The table \<^verbatim>\<open>LoginSessionsTable\<close> is declared in \<^verbatim>\<open>Database.models\<close>;
  a row is identified by its \<open>xid\<close>, the session id of the specification, so that
  deleting an object removes the rows with its \<open>xid\<close>.
\<close>

definition session_add :: "login_session \<Rightarrow> ('l, 'r) stmt" where
  "session_add row s =
     (Normal, fst s,
      (snd s)\<lparr>working := (working (snd s))
        \<lparr>login_sessions := login_sessions (working (snd s)) @ [row]\<rparr>\<rparr>)"

definition session_delete :: "login_session \<Rightarrow> ('l, 'r) stmt" where
  "session_delete row s =
     (Normal, fst s,
      (snd s)\<lparr>working := (working (snd s))
        \<lparr>login_sessions := filter (\<lambda>r. xid r \<noteq> xid row) (login_sessions (working (snd s)))\<rparr>\<rparr>)"

definition commit :: "('l, 'r) stmt" where
  "commit s =
     (case storage_call (snd s) of
        (Some msg, d) \<Rightarrow> (Raise (SQLAlchemyError msg), fst s, d)
      | (None, d) \<Rightarrow> (Normal, fst s, d\<lparr>committed := working d\<rparr>))"

definition rollback :: "('l, 'r) stmt" where
  "rollback s =
     (case storage_call (snd s) of
        (Some msg, d) \<Rightarrow> (Raise (SQLAlchemyError msg), fst s, d)
      | (None, d) \<Rightarrow> (Normal, fst s, d\<lparr>working := committed d\<rparr>))"

text \<open>A function body run from the initial value of its local variable.\<close>

definition run :: "'l \<Rightarrow> ('l, 'r) stmt \<Rightarrow> db \<Rightarrow> 'r completion \<times> db" where
  "run init body d = (let (c, l, d') = body (init, d) in (c, d'))"

section \<open>Database/authentication.py\<close>

definition delete_session :: "string \<Rightarrow> db \<Rightarrow> bool completion \<times> db" where
  "delete_session session_id =
     run False
       (with_session
         (try_except_finally
           (query (\<lambda>t. find (\<lambda>r. xid r = session_id) (login_sessions t))
              (\<lambda>session_data.
                 case session_data of
                   Some row \<Rightarrow> block [session_delete row, assign True]
                 | None \<Rightarrow> assign False))
           (\<lambda>error. block
              [rollback,
               print (''[DB] Error deleting session: '' @ error),
               assign False])
           (block [commit, return_local])))"

text \<open>
  \<^verbatim>\<open>check_current_user\<close>. \<open>now\<close> is the clock at the call, in whole seconds: the
  value of \<^verbatim>\<open>int(time())\<close> and of the \<^verbatim>\<open>func.now()\<close> that refreshes the row (the
  clock of the application and the clock of the database are taken to agree, and the
  stored time to be UTC, as the code reads it).
\<close>

definition check_current_user :: "config \<Rightarrow> int \<Rightarrow> request \<Rightarrow> db \<Rightarrow> string completion \<times> db" where
  "check_current_user cfg now request =
     (case cookies request ''session_id'' of
        None \<Rightarrow> (\<lambda>d. (Return [], d))
      | Some session_id \<Rightarrow>
          if session_id = [] then (\<lambda>d. (Return [], d))
          else
            run []
              (with_session
                (try_except_finally
                  (query (\<lambda>t. find (\<lambda>r. xid r = session_id) (login_sessions t))
                     (\<lambda>login_data.
                        case login_data of
                          None \<Rightarrow> return_local
                        | Some row \<Rightarrow>
                            block
                              [if \<not> is_main_user row
                               then (let current_time = now;
                                         last_active = last_active row
                                     in if current_time - last_active > session_expire_time cfg
                                        then block [session_delete row, commit, return_local]
                                        else skip)
                               else skip,
                               execute (\<lambda>t. t\<lparr>login_sessions :=
                                  map (\<lambda>r. if xid r = session_id then r\<lparr>last_active := now\<rparr> else r)
                                    (login_sessions t)\<rparr>),
                               assign (user_id row)]))
                  (\<lambda>error. block
                     [rollback,
                      print (''[DB] Error checking current user: '' @ error),
                      assign []])
                  (block [commit, return_local]))))"

text \<open>
  \<^verbatim>\<open>cleanup_login_sessions\<close>: one pass of the body of \<^verbatim>\<open>while True\<close>, after
  the \<^verbatim>\<open>sleep\<close>, with \<open>now\<close> the clock read by \<^verbatim>\<open>datetime.now\<close>.
\<close>

definition cleanup_tick :: "config \<Rightarrow> int \<Rightarrow> db \<Rightarrow> unit completion \<times> db" where
  "cleanup_tick cfg now =
     run False
       (with_session
         (try_except_finally
           (let current_time = now;
                expired_time = current_time - session_expire_time cfg
            in query (\<lambda>t. filter (\<lambda>r. last_active r < expired_time \<and> is_main_user r = False)
                                  (login_sessions t))
                 (\<lambda>expired_sessions.
                    block [block (map session_delete expired_sessions), assign True]))
           (\<lambda>error. block
              [rollback,
               print (''[DB] Error cleaning up login sessions: '' @ error),
               assign False])
           (block
              [commit,
               (\<lambda>s. if fst s then print ''[DB] Cleaned up login sessions'' s
                    else print ''[DB] Failed to clean up login sessions'' s)])))"

text \<open>
  The loop itself never leaves by its condition. It is run here over the clock readings
  of the passes observed: the result is \<open>Normal\<close> when all of them completed and the
  loop is still going, and \<open>Raise e\<close> when an exception left the body of the loop, which
  ends the coroutine.
\<close>

fun cleanup_login_sessions :: "config \<Rightarrow> int list \<Rightarrow> db \<Rightarrow> unit completion \<times> db" where
  "cleanup_login_sessions cfg [] d = (Normal, d)"
| "cleanup_login_sessions cfg (now # later) d =
     (case cleanup_tick cfg now d of
        (Normal, d') \<Rightarrow> cleanup_login_sessions cfg later d'
      | (c, d') \<Rightarrow> (c, d'))"

text \<open>
  What the routers use and the sources do not contain: \<^verbatim>\<open>get_id_from_email\<close> of the
  \<^verbatim>\<open>Database\<close> package, \<^verbatim>\<open>verify_password\<close> and \<^verbatim>\<open>random_xid\<close> of
  \<^verbatim>\<open>Utilities.auth_tools\<close>, \<^verbatim>\<open>jsonable_encoder\<close> of the web framework, the
  \<^verbatim>\<open>repr\<close> of a session row, and the deployment flag read from the environment. They
  are parameters of the model.
\<close>

record deps =
  get_id_from_email :: "string \<Rightarrow> db \<Rightarrow> string completion \<times> db"
  verify_password :: "string \<Rightarrow> string option \<Rightarrow> bool"
  random_xid :: "nat \<Rightarrow> string"
  jsonable_encoder :: "dict \<Rightarrow> pyval"
  repr_session :: "login_session \<Rightarrow> string"
  isDeploy :: bool

definition create_session :: "deps \<Rightarrow> login_session \<Rightarrow> db \<Rightarrow> bool completion \<times> db" where
  "create_session deps session_data =
     run False
       (with_session
         (try_except_finally
           (block
              [session_add session_data,
               print (''[DB] New session created: '' @ repr_session deps session_data),
               assign True])
           (\<lambda>error. block
              [rollback,
               print (''[DB] Error creating new session: '' @ error),
               assign False])
           (block [commit, return_local])))"

section \<open>Database/connector.py\<close>

text \<open>The dict \<^verbatim>\<open>serialized_data\<close> that \<^verbatim>\<open>get_one_account\<close> builds from a row.\<close>

definition serialized_account :: "account \<Rightarrow> dict" where
  "serialized_account a =
     [(''id'', PStr (id_account a)),
      (''email'', PStr (email a)),
      (''role'', PRole (role a)),
      (''user_name'', user_name a),
      (''birth_date'', birth_date a),
      (''gender'', gender a),
      (''address'', address a)]"

definition get_one_account :: "string \<Rightarrow> db \<Rightarrow> dict completion \<times> db" where
  "get_one_account account_id =
     run []
       (with_session
         (try_except_finally
           (query (\<lambda>t. find (\<lambda>a. id_account a = account_id) (accounts t))
              (\<lambda>account_data.
                 case account_data of
                   Some a \<Rightarrow> assign (serialized_account a)
                 | None \<Rightarrow> assign []))
           (\<lambda>error. block
              [rollback,
               print (''[DB] Error getting one account data: '' @ error),
               assign []])
           return_local))"

text \<open>
  \<^verbatim>\<open>get_hashed_password\<close> and \<^verbatim>\<open>get_one_family\<close> subscript what \<^verbatim>\<open>.first()\<close>
  gave without looking at it: on \<^verbatim>\<open>None\<close> the subscript raises \<^verbatim>\<open>TypeError\<close>,
  which the \<^verbatim>\<open>except SQLAlchemyError\<close> clause does not catch.
\<close>

definition not_subscriptable :: exn where
  "not_subscriptable = TypeError ''NoneType object is not subscriptable''"

definition get_hashed_password :: "string \<Rightarrow> db \<Rightarrow> string completion \<times> db" where
  "get_hashed_password account_id =
     run []
       (with_session
         (try_except_finally
           (query (\<lambda>t. find (\<lambda>a. id_account a = account_id) (accounts t))
              (\<lambda>first.
                 case first of
                   None \<Rightarrow> raise_exn not_subscriptable
                 | Some a \<Rightarrow> (let hashed_password = password a in assign hashed_password)))
           (\<lambda>error. block
              [rollback,
               print (''[DB] Error getting hashed password: '' @ error),
               assign []])
           return_local))"

definition get_one_family :: "string \<Rightarrow> db \<Rightarrow> dict completion \<times> db" where
  "get_one_family family_id =
     run []
       (with_session
         (try_except_finally
           (query (\<lambda>t. find (\<lambda>f. id_family f = family_id) (families t))
              (\<lambda>family_data.
                 case family_data of
                   None \<Rightarrow> raise_exn not_subscriptable
                 | Some f \<Rightarrow>
                     (let serialized_data =
                        [(''id'', PStr (id_family f)),
                         (''main_user'', PStr (main_user f)),
                         (''family_name'', PStr (family_name f))]
                      in assign serialized_data)))
           (\<lambda>error. block
              [rollback,
               print (''[DB] Error getting one family data: '' @ error),
               assign []])
           return_local))"


section \<open>Routers/authentication.py\<close>

text \<open>
  The response object a handler is given collects the cookie headers it is asked to
  send. When the handler raises \<^verbatim>\<open>HTTPException\<close>, the framework answers with the
  status and detail of the exception.
\<close>

datatype cookie_header =
    set_cookie string string bool bool string "string option"
      \<comment> \<open>key, value, httponly, secure, samesite, domain\<close>
  | delete_cookie string

type_synonym response = "cookie_header list"

record Login =
  email_login :: "string option"
  password_login :: "string option"

definition SECURE_SET :: bool where
  "SECURE_SET = True"

definition SAME_SET :: string where
  "SAME_SET = ''none''"

definition DOMAIN_SET :: "deps \<Rightarrow> string option" where
  "DOMAIN_SET deps = (if isDeploy deps then Some ''.itdice.net'' else None)"

definition return_value :: "'r \<Rightarrow> ('l, 'r) stmt" where
  "return_value v s = (Return v, s)"

definition add_header :: "cookie_header \<Rightarrow> (response, 'r) stmt" where
  "add_header h s = (Normal, fst s @ [h], snd s)"

text \<open>
  A call of a database function from a handler: an exception of the callee passes
  through the handler, and a callee that falls off its end gives \<^verbatim>\<open>None\<close>.
\<close>

definition call :: "(db \<Rightarrow> 'a completion \<times> db) \<Rightarrow> ('a option \<Rightarrow> ('l, 'r) stmt) \<Rightarrow> ('l, 'r) stmt" where
  "call f k s =
     (case f (snd s) of
        (Return v, d) \<Rightarrow> k (Some v) (fst s, d)
      | (Normal, d) \<Rightarrow> k None (fst s, d)
      | (Raise e, d) \<Rightarrow> (Raise e, fst s, d))"

definition py_str :: "string option \<Rightarrow> pyval" where
  "py_str v = (case v of None \<Rightarrow> PNone | Some x \<Rightarrow> PStr x)"

text \<open>\<^verbatim>\<open>x is None or x == ""\<close>\<close>

definition is_blank :: "string option \<Rightarrow> bool" where
  "is_blank v = (v = None \<or> v = Some [])"

definition unauthorized :: "pyval \<Rightarrow> exn" where
  "unauthorized input =
     HTTPException 401
       [(''type'', PStr ''unauthorized''),
        (''message'', PStr ''Invalid email or password''),
        (''input'', input)]"

text \<open>
  Modelled from the spec: the row that \<^verbatim>\<open>login\<close> builds leaves \<^verbatim>\<open>last_active\<close> to
  the default of the column, declared in \<^verbatim>\<open>Database.models\<close>; the specification has
  a new session persisted with the current timestamp as last-active, here \<open>now\<close>.
\<close>

definition login :: "deps \<Rightarrow> int \<Rightarrow> Login \<Rightarrow> response \<times> db \<Rightarrow> dict completion \<times> response \<times> db" where
  "login deps now login_data =
     (let input = PDict [(''email'', py_str (email_login login_data)),
                         (''password'', PStr ''<PASSWORD>'')];
          no_data =
            (let missing_location =
                   [PStr ''body'']
                   @ (if is_blank (email_login login_data) then [PStr ''email''] else [])
                   @ (if is_blank (password_login login_data) then [PStr ''password''] else [])
             in raise_exn
                  (HTTPException 422
                     [(''type'', PStr ''no data''),
                      (''loc'', PList missing_location),
                      (''message'', PStr ''Login data is required''),
                      (''input'', input)]))
      in case (email_login login_data, password_login login_data) of
           (Some address_given, Some input_password) \<Rightarrow>
             if address_given = [] \<or> input_password = [] then no_data
             else
               call (get_id_from_email deps address_given) (\<lambda>user_id.
                 case user_id of
                   None \<Rightarrow> raise_exn (unauthorized input)
                 | Some uid \<Rightarrow>
                     if uid = [] then raise_exn (unauthorized input)
                     else
                       call (get_one_account uid) (\<lambda>user_data.
                         case user_data of
                           None \<Rightarrow> raise_exn (unauthorized input)
                         | Some user_data \<Rightarrow>
                             if user_data = [] then raise_exn (unauthorized input)
                             else
                               call (get_hashed_password uid) (\<lambda>hashed_password.
                                 let is_verified = verify_password deps input_password hashed_password
                                 in if \<not> is_verified then raise_exn (unauthorized input)
                                    else
                                      let new_xid = random_xid deps 16
                                      in case map_of user_data ''role'' of
                                           None \<Rightarrow> raise_exn (KeyError ''role'')
                                         | Some user_role \<Rightarrow>
                                             let new_session =
                                                   \<lparr>xid = new_xid,
                                                    user_id = uid,
                                                    last_active = now,
                                                    is_main_user = (user_role = PRole MAIN)\<rparr>
                                             in call (create_session deps new_session) (\<lambda>result.
                                                  if result \<noteq> Some True
                                                  then raise_exn
                                                         (HTTPException 500
                                                            [(''type'', PStr ''server error''),
                                                             (''message'', PStr ''Failed to create session''),
                                                             (''input'', input)])
                                                  else block
                                                         [add_header
                                                            (set_cookie ''session_id'' new_xid True
                                                               SECURE_SET SAME_SET (DOMAIN_SET deps)),
                                                          return_value
                                                            [(''message'', PStr ''Login successful''),
                                                             (''result'', PDict
                                                                [(''session_id'', PStr new_xid),
                                                                 (''user_data'', jsonable_encoder deps user_data)])]]))))
         | _ \<Rightarrow> no_data)"

definition logout :: "request \<Rightarrow> response \<times> db \<Rightarrow> dict completion \<times> response \<times> db" where
  "logout request =
     (let session_id = cookies request ''session_id''
      in block
           [case session_id of
              None \<Rightarrow> skip
            | Some session_id \<Rightarrow>
                if session_id = [] then skip
                else
                  call (delete_session session_id) (\<lambda>result.
                    if result \<noteq> Some True
                    then raise_exn
                           (HTTPException 500
                              [(''type'', PStr ''server error''),
                               (''message'', PStr ''Failed to delete session''),
                               (''input'', PDict [(''session_id'', PStr session_id)])])
                    else add_header (delete_cookie ''session_id'')),
            return_value [(''message'', PStr ''Logout successful'')]])"


section \<open>Notions used in the statements\<close>

text \<open>The tables without the session \<open>sid\<close>, and with its \<open>last_active\<close> set to \<open>now\<close>.\<close>

definition without_session :: "string \<Rightarrow> tables \<Rightarrow> tables" where
  "without_session sid t =
     t\<lparr>login_sessions := filter (\<lambda>r. xid r \<noteq> sid) (login_sessions t)\<rparr>"

definition touch :: "string \<Rightarrow> int \<Rightarrow> tables \<Rightarrow> tables" where
  "touch sid now t =
     t\<lparr>login_sessions :=
         map (\<lambda>r. if xid r = sid then r\<lparr>last_active := now\<rparr> else r) (login_sessions t)\<rparr>"

text \<open>The database after a session committed the tables \<open>t\<close> and was closed.\<close>

definition settled :: "tables \<Rightarrow> db \<Rightarrow> db" where
  "settled t d = d\<lparr>committed := t, working := t\<rparr>"

text \<open>A session the sweep is meant to remove at time \<open>now\<close>, and the tables without those.\<close>

definition expired :: "config \<Rightarrow> int \<Rightarrow> login_session \<Rightarrow> bool" where
  "expired cfg now r = (\<not> is_main_user r \<and> last_active r < now - session_expire_time cfg)"

definition swept :: "config \<Rightarrow> int \<Rightarrow> tables \<Rightarrow> tables" where
  "swept cfg now t =
     t\<lparr>login_sessions := filter (\<lambda>r. \<not> expired cfg now r) (login_sessions t)\<rparr>"

text \<open>
  The scenario of the specification: \<open>A\<close> is privileged, \<open>B\<close> is not, and both were last
  active 10000 seconds before \<open>now\<close>.
\<close>

definition session_A :: "int \<Rightarrow> login_session" where
  "session_A now =
     \<lparr>xid = ''A'', user_id = ''main-user'', last_active = now - 10000, is_main_user = True\<rparr>"

definition session_B :: "int \<Rightarrow> login_session" where
  "session_B now =
     \<lparr>xid = ''B'', user_id = ''sub-user'', last_active = now - 10000, is_main_user = False\<rparr>"

definition two_sessions :: "int \<Rightarrow> tables" where
  "two_sessions now =
     \<lparr>accounts = [], families = [], login_sessions = [session_A now, session_B now]\<rparr>"

definition quiet_db :: "tables \<Rightarrow> db" where
  "quiet_db t = \<lparr>committed = t, working = t, faults = [], printed = []\<rparr>"

definition cookie_request :: "string \<Rightarrow> request" where
  "cookie_request sid = \<lparr>cookies = [''session_id'' \<mapsto> sid]\<rparr>"

text \<open>The database with another accounts table.\<close>

definition with_accounts :: "account list \<Rightarrow> db \<Rightarrow> db" where
  "with_accounts acc d = d\<lparr>committed := (committed d)\<lparr>accounts := acc\<rparr>\<rparr>"

text \<open>
  Two accounts, one with the main role and one without, and stand-ins for the functions
  the sources do not contain: the lookup by email reads the accounts table, a password
  verifies against the hash made of it, and the identifier drawn is sixteen characters.
\<close>

definition kim :: account where
  "kim =
     \<lparr>id_account = ''u-kim'', email = ''kim@example.com'', password = ''hash-of-secret'',
      role = MAIN, user_name = PStr ''Kim'', birth_date = PNone, gender = PNone,
      address = PNone\<rparr>"

definition lee :: account where
  "lee =
     \<lparr>id_account = ''u-lee'', email = ''lee@example.com'', password = ''hash-of-hunter2'',
      role = OtherRole ''sub'', user_name = PStr ''Lee'', birth_date = PNone, gender = PNone,
      address = PNone\<rparr>"

definition two_accounts :: tables where
  "two_accounts = \<lparr>accounts = [kim, lee], families = [], login_sessions = []\<rparr>"

definition plain_deps :: deps where
  "plain_deps =
     \<lparr>get_id_from_email =
        (\<lambda>e d. (Return (case find (\<lambda>a. email a = e) (accounts (committed d)) of
                          None \<Rightarrow> []
                        | Some a \<Rightarrow> id_account a), d)),
      verify_password = (\<lambda>p h. h = Some (''hash-of-'' @ p)),
      random_xid = (\<lambda>n. replicate n CHR ''x''),
      jsonable_encoder = PDict,
      repr_session = xid,
      isDeploy = False\<rparr>"

definition credentials :: "string \<Rightarrow> string \<Rightarrow> Login" where
  "credentials e p = \<lparr>email_login = Some e, password_login = Some p\<rparr>"

section \<open>Basic facts\<close>

lemmas stmt_defs =
  run_def with_session_def try_except_finally_def query_def execute_def commit_def
  rollback_def storage_call_def session_delete_def session_add_def assign_def
  return_local_def print_def skip_def raise_exn_def

lemma find_xid: "find (\<lambda>r. xid r = sid) rows = Some row \<Longrightarrow> xid row = sid"
  by (auto simp: find_Some_iff)

lemma find_removed: "find (\<lambda>r. xid r = sid) (filter (\<lambda>r. xid r \<noteq> sid) rows) = None"
  by (simp add: find_None_iff)

lemma find_touched:
  "find (\<lambda>r. xid r = sid)
      (map (\<lambda>r. if xid r = sid then r\<lparr>last_active := now\<rparr> else r) rows)
     = map_option (\<lambda>r. r\<lparr>last_active := now\<rparr>) (find (\<lambda>r. xid r = sid) rows)"
  by (induction rows) auto

lemma find_filter_other:
  "sid' \<noteq> sid \<Longrightarrow>
   find (\<lambda>r. xid r = sid) (filter (\<lambda>r. xid r \<noteq> sid') rows) = find (\<lambda>r. xid r = sid) rows"
  by (induction rows) auto

lemma find_touched_other:
  "sid' \<noteq> sid \<Longrightarrow>
   find (\<lambda>r. xid r = sid)
      (map (\<lambda>r. if xid r = sid' then r\<lparr>last_active := now\<rparr> else r) rows)
     = find (\<lambda>r. xid r = sid) rows"
  by (induction rows) auto

section \<open>Deleting a session\<close>

lemma delete_session_present:
  assumes "faults d = []"
    and "find (\<lambda>r. xid r = sid) (login_sessions (committed d)) = Some row"
  shows "delete_session sid d = (Return True, settled (without_session sid (committed d)) d)"
  using assms find_xid[OF assms(2)]
  by (simp add: delete_session_def stmt_defs settled_def without_session_def)

lemma delete_session_absent:
  assumes "faults d = []"
    and "find (\<lambda>r. xid r = sid) (login_sessions (committed d)) = None"
  shows "delete_session sid d = (Return False, settled (committed d) d)"
  using assms
  by (simp add: delete_session_def stmt_defs settled_def)

text \<open>
  C6. With a store that answers, deleting a session that exists returns \<open>True\<close> and
  removes the row; deleting it again returns \<open>False\<close> and changes nothing. Both calls
  return: neither ends in an exception.
\<close>

theorem delete_session_twice:
  assumes "faults d = []"
    and "find (\<lambda>r. xid r = sid) (login_sessions (committed d)) = Some row"
  shows "let d1 = settled (without_session sid (committed d)) d
         in delete_session sid d = (Return True, d1)
          \<and> find (\<lambda>r. xid r = sid) (login_sessions (committed d1)) = None
          \<and> delete_session sid d1 = (Return False, d1)"
proof -
  define d1 where "d1 = settled (without_session sid (committed d)) d"
  have gone: "find (\<lambda>r. xid r = sid) (login_sessions (committed d1)) = None"
    by (simp add: d1_def settled_def without_session_def find_removed)
  have quiet: "faults d1 = []"
    using assms(1) by (simp add: d1_def settled_def)
  have same: "settled (committed d1) d1 = d1"
    by (simp add: d1_def settled_def)
  have first: "delete_session sid d = (Return True, d1)"
    unfolding d1_def by (rule delete_session_present[OF assms])
  have second: "delete_session sid d1 = (Return False, d1)"
    using delete_session_absent[OF quiet gone] same by simp
  show ?thesis
    using first gone second by (simp add: d1_def Let_def)
qed

theorem delete_session_twice_witness:
  "faults (quiet_db (two_sessions 20000)) = []
   \<and> find (\<lambda>r. xid r = ''B'') (login_sessions (committed (quiet_db (two_sessions 20000))))
       = Some (session_B 20000)
   \<and> delete_session ''B'' (quiet_db (two_sessions 20000))
       = (Return True, quiet_db ((two_sessions 20000)\<lparr>login_sessions := [session_A 20000]\<rparr>))
   \<and> delete_session ''B'' (quiet_db ((two_sessions 20000)\<lparr>login_sessions := [session_A 20000]\<rparr>))
       = (Return False, quiet_db ((two_sessions 20000)\<lparr>login_sessions := [session_A 20000]\<rparr>))"
proof -
  have quiet: "faults (quiet_db (two_sessions 20000)) = []"
    by (simp add: quiet_db_def)
  have found: "find (\<lambda>r. xid r = ''B'') (login_sessions (committed (quiet_db (two_sessions 20000))))
       = Some (session_B 20000)"
    by (simp add: quiet_db_def two_sessions_def session_A_def session_B_def)
  have after: "settled (without_session ''B'' (committed (quiet_db (two_sessions 20000))))
                 (quiet_db (two_sessions 20000))
             = quiet_db ((two_sessions 20000)\<lparr>login_sessions := [session_A 20000]\<rparr>)"
    by (simp add: settled_def without_session_def quiet_db_def two_sessions_def
          session_A_def session_B_def)
  show ?thesis
    using delete_session_twice[OF quiet found] quiet found
    by (simp add: after Let_def)
qed


section \<open>Resolving a session\<close>

lemma check_current_user_expired:
  assumes "faults d = []"
    and "cookies request ''session_id'' = Some sid" and "sid \<noteq> []"
    and "find (\<lambda>r. xid r = sid) (login_sessions (committed d)) = Some row"
    and "\<not> is_main_user row"
    and "now - last_active row > session_expire_time cfg"
  shows "check_current_user cfg now request d
           = (Return [], settled (without_session sid (committed d)) d)"
  using assms find_xid[OF assms(4)]
  by (simp add: check_current_user_def stmt_defs settled_def without_session_def)

lemma check_current_user_live:
  assumes "faults d = []"
    and "cookies request ''session_id'' = Some sid" and "sid \<noteq> []"
    and "find (\<lambda>r. xid r = sid) (login_sessions (committed d)) = Some row"
    and "is_main_user row \<or> now - last_active row \<le> session_expire_time cfg"
  shows "check_current_user cfg now request d
           = (Return (user_id row), settled (touch sid now (committed d)) d)"
  using assms
  by (auto simp add: check_current_user_def stmt_defs settled_def touch_def)

lemma check_current_user_keeps_main:
  assumes "find (\<lambda>r. xid r = sid) (login_sessions (committed d)) = Some row"
    and "is_main_user row"
  shows "\<exists>r. find (\<lambda>r. xid r = sid)
               (login_sessions (committed (snd (check_current_user cfg now request d)))) = Some r
            \<and> is_main_user r \<and> user_id r = user_id row"
proof (cases "cookies request ''session_id''")
  case None
  then show ?thesis using assms by (simp add: check_current_user_def)
next
  case (Some session_id)
  note cookie = this
  show ?thesis
  proof (cases "session_id = sid")
    case True
    then show ?thesis using assms cookie
      by (auto simp add: check_current_user_def stmt_defs find_touched
            split: list.splits option.splits)
  next
    case False
    show ?thesis
    proof (cases "find (\<lambda>r. xid r = session_id) (login_sessions (committed d))")
      case None
      then show ?thesis using assms cookie False
        by (auto simp add: check_current_user_def stmt_defs split: list.splits option.splits)
    next
      case (Some other)
      have "xid other = session_id" using Some by (rule find_xid)
      then show ?thesis using assms cookie False Some
        by (auto simp add: check_current_user_def stmt_defs find_touched_other find_filter_other
              split: list.splits option.splits)
    qed
  qed
qed

text \<open>
  C1. A session \<open>S\<close> that is not privileged and whose idle time \<open>now - last_active S\<close>
  exceeds \<open>session_expire_time\<close>: resolving it (its id, which is not empty, in the
  \<^verbatim>\<open>session_id\<close> cookie; a store that answers) returns the empty user id and commits
  the tables without \<open>S\<close>, so that no row with that id is left.
\<close>

theorem check_current_user_expires_idle_session:
  assumes "faults d = []"
    and "cookies request ''session_id'' = Some sid" and "sid \<noteq> []"
    and "find (\<lambda>r. xid r = sid) (login_sessions (committed d)) = Some S"
    and "\<not> is_main_user S"
    and "now - last_active S > session_expire_time cfg"
  shows "check_current_user cfg now request d
           = (Return [], settled (without_session sid (committed d)) d)
       \<and> find (\<lambda>r. xid r = sid)
            (login_sessions (committed (snd (check_current_user cfg now request d)))) = None"
proof -
  have "check_current_user cfg now request d
          = (Return [], settled (without_session sid (committed d)) d)"
    using assms by (rule check_current_user_expired)
  then show ?thesis
    by (simp add: settled_def without_session_def find_removed)
qed

theorem check_current_user_expires_idle_session_witness:
  "check_current_user default_config 20000 (cookie_request ''B'') (quiet_db (two_sessions 20000))
     = (Return [], quiet_db ((two_sessions 20000)\<lparr>login_sessions := [session_A 20000]\<rparr>))
   \<and> find (\<lambda>r. xid r = ''B'')
        (login_sessions (committed (snd (check_current_user default_config 20000
           (cookie_request ''B'') (quiet_db (two_sessions 20000)))))) = None"
proof -
  have after: "settled (without_session ''B'' (committed (quiet_db (two_sessions 20000))))
                 (quiet_db (two_sessions 20000))
             = quiet_db ((two_sessions 20000)\<lparr>login_sessions := [session_A 20000]\<rparr>)"
    by (simp add: settled_def without_session_def quiet_db_def two_sessions_def
          session_A_def session_B_def)
  have quiet: "faults (quiet_db (two_sessions 20000)) = []"
    by (simp add: quiet_db_def)
  have cookie: "cookies (cookie_request ''B'') ''session_id'' = Some ''B''"
    by (simp add: cookie_request_def)
  have found: "find (\<lambda>r. xid r = ''B'') (login_sessions (committed (quiet_db (two_sessions 20000))))
                 = Some (session_B 20000)"
    by (simp add: quiet_db_def two_sessions_def session_A_def session_B_def)
  have plain: "\<not> is_main_user (session_B 20000)"
    by (simp add: session_B_def)
  have idle: "20000 - last_active (session_B 20000) > session_expire_time default_config"
    by (simp add: session_B_def default_config_def)
  show ?thesis
    using check_current_user_expires_idle_session [OF quiet cookie _ found plain idle]
    by (simp only: after) (simp add: quiet_db_def session_A_def)
qed

text \<open>
  C4. A session that is privileged, or whose idle time is within \<open>session_expire_time\<close>:
  resolving it at \<open>now\<close> (a store that answers) returns its owner and commits the row
  with \<open>last_active = now\<close>; resolving the same id again at a time \<open>now'\<close> that is
  within the timeout of \<open>now\<close> returns the same owner.
\<close>

theorem check_current_user_refreshes:
  assumes "faults d = []"
    and "cookies request ''session_id'' = Some sid" and "sid \<noteq> []"
    and "find (\<lambda>r. xid r = sid) (login_sessions (committed d)) = Some S"
    and "is_main_user S \<or> now - last_active S \<le> session_expire_time cfg"
    and "now' - now \<le> session_expire_time cfg"
  shows "let d1 = settled (touch sid now (committed d)) d
         in check_current_user cfg now request d = (Return (user_id S), d1)
          \<and> find (\<lambda>r. xid r = sid) (login_sessions (committed d1))
              = Some (S\<lparr>last_active := now\<rparr>)
          \<and> fst (check_current_user cfg now' request d1) = Return (user_id S)"
proof -
  define d1 where "d1 = settled (touch sid now (committed d)) d"
  have first: "check_current_user cfg now request d = (Return (user_id S), d1)"
    unfolding d1_def using assms(1-5) by (rule check_current_user_live)
  have found: "find (\<lambda>r. xid r = sid) (login_sessions (committed d1))
                 = Some (S\<lparr>last_active := now\<rparr>)"
    using assms(4) by (simp add: d1_def settled_def touch_def find_touched)
  have quiet: "faults d1 = []"
    using assms(1) by (simp add: d1_def settled_def)
  have fresh: "is_main_user (S\<lparr>last_active := now\<rparr>)
                 \<or> now' - last_active (S\<lparr>last_active := now\<rparr>) \<le> session_expire_time cfg"
    using assms(6) by simp
  have "check_current_user cfg now' request d1
          = (Return (user_id (S\<lparr>last_active := now\<rparr>)), settled (touch sid now' (committed d1)) d1)"
    using quiet assms(2,3) found fresh by (rule check_current_user_live)
  then have second: "fst (check_current_user cfg now' request d1) = Return (user_id S)"
    by simp
  show ?thesis
    using first found second by (simp add: d1_def Let_def)
qed

theorem check_current_user_refreshes_witness:
  "check_current_user default_config 11000 (cookie_request ''B'') (quiet_db (two_sessions 20000))
     = (Return ''sub-user'',
        quiet_db ((two_sessions 20000)
          \<lparr>login_sessions := [session_A 20000, (session_B 20000)\<lparr>last_active := 11000\<rparr>]\<rparr>))
   \<and> fst (check_current_user default_config 11000 (cookie_request ''B'')
        (quiet_db ((two_sessions 20000)
          \<lparr>login_sessions := [session_A 20000, (session_B 20000)\<lparr>last_active := 11000\<rparr>]\<rparr>)))
     = Return ''sub-user''"
proof -
  have after: "settled (touch ''B'' 11000 (committed (quiet_db (two_sessions 20000))))
                 (quiet_db (two_sessions 20000))
             = quiet_db ((two_sessions 20000)
                 \<lparr>login_sessions := [session_A 20000, (session_B 20000)\<lparr>last_active := 11000\<rparr>]\<rparr>)"
    by (simp add: settled_def touch_def quiet_db_def two_sessions_def
          session_A_def session_B_def)
  have owner: "user_id (session_B 20000) = ''sub-user''"
    by (simp add: session_B_def)
  have quiet: "faults (quiet_db (two_sessions 20000)) = []"
    by (simp add: quiet_db_def)
  have cookie: "cookies (cookie_request ''B'') ''session_id'' = Some ''B''"
    by (simp add: cookie_request_def)
  have found: "find (\<lambda>r. xid r = ''B'') (login_sessions (committed (quiet_db (two_sessions 20000))))
                 = Some (session_B 20000)"
    by (simp add: quiet_db_def two_sessions_def session_A_def session_B_def)
  have live: "is_main_user (session_B 20000)
                \<or> 11000 - last_active (session_B 20000) \<le> session_expire_time default_config"
    by (simp add: session_B_def default_config_def)
  have soon: "(11000::int) - 11000 \<le> session_expire_time default_config"
    by (simp add: default_config_def)
  show ?thesis
    using check_current_user_refreshes [OF quiet cookie _ found live soon]
    by (simp only: after owner Let_def) simp
qed


section \<open>The cleanup sweep\<close>

lemma session_delete_pair:
  "session_delete row (l, d) =
     (Normal, l, d\<lparr>working := (working d)
        \<lparr>login_sessions := filter (\<lambda>r. xid r \<noteq> xid row) (login_sessions (working d))\<rparr>\<rparr>)"
  by (simp add: session_delete_def)

lemma filter_twice:
  "filter (\<lambda>r. xid r \<notin> xid ` set rows) (filter (\<lambda>r. xid r \<noteq> xid row) xs)
     = filter (\<lambda>r. xid r \<notin> xid ` set (row # rows)) xs"
  by (induction xs) auto

text \<open>The \<^verbatim>\<open>for\<close> loop over the expired sessions removes the rows with their ids.\<close>

lemma delete_all:
  "block (map session_delete rows) (l, d) =
     (Normal, l, d\<lparr>working := (working d)
        \<lparr>login_sessions :=
           filter (\<lambda>r. xid r \<notin> xid ` set rows) (login_sessions (working d))\<rparr>\<rparr>)"
proof (induction rows arbitrary: d)
  case Nil
  then show ?case by simp
next
  case (Cons row rows)
  show ?case
    by (simp only: list.map block.simps session_delete_pair prod.case completion.case Cons.IH)
       (simp add: filter_twice)
qed

text \<open>Where ids are unique, removing by id the rows selected by \<open>P\<close> leaves the others.\<close>

lemma filter_by_key:
  assumes "distinct (map xid rows)"
  shows "filter (\<lambda>r. xid r \<notin> xid ` set (filter P rows)) rows = filter (\<lambda>r. \<not> P r) rows"
proof (rule filter_cong[OF refl])
  fix r assume r: "r \<in> set rows"
  have inj: "inj_on xid (set rows)"
    using assms by (simp add: distinct_map)
  show "(xid r \<notin> xid ` set (filter P rows)) = (\<not> P r)"
  proof
    assume "xid r \<notin> xid ` set (filter P rows)"
    then show "\<not> P r" using r by auto
  next
    assume np: "\<not> P r"
    show "xid r \<notin> xid ` set (filter P rows)"
    proof
      assume "xid r \<in> xid ` set (filter P rows)"
      then obtain r' where r': "r' \<in> set rows" "P r'" "xid r' = xid r" by auto
      then have "r' = r" using inj r by (auto dest: inj_onD)
      then show False using np r' by simp
    qed
  qed
qed

lemma cleanup_tick_quiet:
  assumes "faults d = []" and "distinct (map xid (login_sessions (committed d)))"
  shows "cleanup_tick cfg now d =
           (Normal, (settled (swept cfg now (committed d)) d)
              \<lparr>printed := printed d @ [''[DB] Cleaned up login sessions'']\<rparr>)"
proof -
  have "filter (\<lambda>r. xid r \<notin> xid ` set (filter
            (\<lambda>r. last_active r < now - session_expire_time cfg \<and> \<not> is_main_user r)
            (login_sessions (committed d)))) (login_sessions (committed d))
        = filter (\<lambda>r. \<not> (last_active r < now - session_expire_time cfg \<and> \<not> is_main_user r))
            (login_sessions (committed d))"
    using assms(2) by (rule filter_by_key)
  then show ?thesis
    using assms(1)
    by (simp add: cleanup_tick_def run_def with_session_def try_except_finally_def query_def
          storage_call_def commit_def assign_def print_def delete_all settled_def swept_def
          expired_def conj_commute)
qed

text \<open>
  C3. One pass of the sweep, with a store that answers and session ids that are unique
  in the table: the committed table afterwards is the table before without the sessions
  that are not privileged and have \<open>last_active < now - session_expire_time\<close>; every
  other row is kept as it was. In the scenario of \<open>A\<close> and \<open>B\<close> (both idle for 10000
  seconds, timeout 1800), the pass leaves \<open>A\<close> alone in the table.
\<close>

theorem cleanup_tick_removes_expired:
  "(faults d = [] \<and> distinct (map xid (login_sessions (committed d))) \<longrightarrow>
      cleanup_tick cfg now d =
        (Normal, (settled (swept cfg now (committed d)) d)
           \<lparr>printed := printed d @ [''[DB] Cleaned up login sessions'']\<rparr>))
   \<and> login_sessions (committed (snd (cleanup_tick default_config now (quiet_db (two_sessions now)))))
       = [session_A now]"
proof
  show "faults d = [] \<and> distinct (map xid (login_sessions (committed d))) \<longrightarrow>
      cleanup_tick cfg now d =
        (Normal, (settled (swept cfg now (committed d)) d)
           \<lparr>printed := printed d @ [''[DB] Cleaned up login sessions'']\<rparr>)"
    by (simp add: cleanup_tick_quiet)
  have quiet: "faults (quiet_db (two_sessions now)) = []"
    by (simp add: quiet_db_def)
  have uniq: "distinct (map xid (login_sessions (committed (quiet_db (two_sessions now)))))"
    by (simp add: quiet_db_def two_sessions_def session_A_def session_B_def)
  show "login_sessions (committed (snd (cleanup_tick default_config now (quiet_db (two_sessions now)))))
       = [session_A now]"
    by (simp only: cleanup_tick_quiet[OF quiet uniq])
       (simp add: settled_def swept_def expired_def quiet_db_def two_sessions_def
          session_A_def session_B_def default_config_def)
qed

theorem cleanup_tick_removes_expired_witness:
  "cleanup_tick default_config 20000 (quiet_db (two_sessions 20000))
     = (Normal, (quiet_db ((two_sessions 20000)\<lparr>login_sessions := [session_A 20000]\<rparr>))
          \<lparr>printed := [''[DB] Cleaned up login sessions'']\<rparr>)"
proof -
  have quiet: "faults (quiet_db (two_sessions 20000)) = []"
    by (simp add: quiet_db_def)
  have uniq: "distinct (map xid (login_sessions (committed (quiet_db (two_sessions 20000)))))"
    by (simp add: quiet_db_def two_sessions_def session_A_def session_B_def)
  have after: "(settled (swept default_config 20000 (committed (quiet_db (two_sessions 20000))))
                  (quiet_db (two_sessions 20000)))
                 \<lparr>printed := printed (quiet_db (two_sessions 20000))
                    @ [''[DB] Cleaned up login sessions'']\<rparr>
             = (quiet_db ((two_sessions 20000)\<lparr>login_sessions := [session_A 20000]\<rparr>))
                 \<lparr>printed := [''[DB] Cleaned up login sessions'']\<rparr>"
    by (simp add: settled_def swept_def expired_def quiet_db_def two_sessions_def
          session_A_def session_B_def default_config_def)
  show ?thesis
    using cleanup_tick_removes_expired
            [where d = "quiet_db (two_sessions 20000)" and cfg = default_config and now = 20000]
          quiet uniq
    by (simp only: after)
qed

text \<open>
  A storage error of the query is caught: the pass prints both lines, changes nothing
  and falls through, so the loop goes on.
\<close>

lemma cleanup_tick_query_error:
  assumes "faults d = [Some msg]"
  shows "cleanup_tick cfg now d =
           (Normal, (settled (committed d) d)
              \<lparr>faults := [],
               printed := printed d @ [''[DB] Error cleaning up login sessions: '' @ msg,
                                      ''[DB] Failed to clean up login sessions'']\<rparr>)"
  using assms
  by (simp add: cleanup_tick_def stmt_defs settled_def)

text \<open>
  C9. The deletions reach the database when the session commits, and the commit stands
  in the \<^verbatim>\<open>finally\<close> clause, outside the \<^verbatim>\<open>try\<close> that the handler covers. A pass
  whose query succeeds and whose commit raises ends in that exception: nothing is
  printed, the expired session \<open>B\<close> stays, and the loop is left before the second pass.
\<close>

theorem cleanup_loop_ends_on_commit_error:
  "cleanup_login_sessions default_config [20000, 20600]
     ((quiet_db (two_sessions 20000))\<lparr>faults := [None, Some ''server has gone away'']\<rparr>)
   = (Raise (SQLAlchemyError ''server has gone away''), quiet_db (two_sessions 20000))"
  by (simp add: cleanup_tick_def run_def with_session_def try_except_finally_def query_def
        storage_call_def commit_def assign_def print_def delete_all quiet_db_def
        two_sessions_def session_A_def session_B_def default_config_def)


section \<open>Privileged sessions\<close>

lemma find_filter_keeps:
  "find Q xs = Some x \<Longrightarrow> R x \<Longrightarrow> find Q (filter R xs) = Some x"
  by (induction xs) (auto split: if_splits)

lemma cleanup_tick_keeps_main:
  assumes "find (\<lambda>r. xid r = sid) (login_sessions (committed d)) = Some S"
    and "is_main_user S"
    and "distinct (map xid (login_sessions (committed d)))"
  shows "find (\<lambda>r. xid r = sid)
           (login_sessions (committed (snd (cleanup_tick cfg now d)))) = Some S"
proof -
  let ?P = "\<lambda>r. last_active r < now - session_expire_time cfg \<and> \<not> is_main_user r"
  have key: "filter (\<lambda>r. xid r \<notin> xid ` set (filter ?P (login_sessions (committed d))))
               (login_sessions (committed d))
             = filter (\<lambda>r. \<not> ?P r) (login_sessions (committed d))"
    using assms(3) by (rule filter_by_key)
  have kept: "find (\<lambda>r. xid r = sid) (filter (\<lambda>r. \<not> ?P r) (login_sessions (committed d)))
                = Some S"
    using assms(1,2) by (simp add: find_filter_keeps)
  show ?thesis
    using assms(1) key kept
    by (auto simp add: cleanup_tick_def run_def with_session_def try_except_finally_def
          query_def storage_call_def commit_def rollback_def assign_def print_def delete_all
          Let_def split: list.splits option.splits)
qed

text \<open>
  C2. A privileged session is never removed by resolving, whatever the clock says and
  whatever the store does during the call: afterwards the row is still there, privileged
  and with the same owner. With a store that answers, resolving it returns its owner,
  however long it has been idle. A pass of the sweep leaves the row as it is as well
  (session ids being unique in the table).
\<close>

theorem privileged_session_never_expires:
  assumes "cookies request ''session_id'' = Some sid" and "sid \<noteq> []"
    and "find (\<lambda>r. xid r = sid) (login_sessions (committed d)) = Some S"
    and "is_main_user S"
  shows "(faults d = [] \<longrightarrow>
            check_current_user cfg now request d
              = (Return (user_id S), settled (touch sid now (committed d)) d))
       \<and> (\<exists>r. find (\<lambda>r. xid r = sid)
                 (login_sessions (committed (snd (check_current_user cfg now request d)))) = Some r
              \<and> is_main_user r \<and> user_id r = user_id S)
       \<and> (distinct (map xid (login_sessions (committed d))) \<longrightarrow>
            find (\<lambda>r. xid r = sid)
              (login_sessions (committed (snd (cleanup_tick cfg now d)))) = Some S)"
proof (intro conjI)
  show "faults d = [] \<longrightarrow>
          check_current_user cfg now request d
            = (Return (user_id S), settled (touch sid now (committed d)) d)"
    using assms by (simp add: check_current_user_live)
  show "\<exists>r. find (\<lambda>r. xid r = sid)
               (login_sessions (committed (snd (check_current_user cfg now request d)))) = Some r
            \<and> is_main_user r \<and> user_id r = user_id S"
    using assms(3,4) by (rule check_current_user_keeps_main)
  show "distinct (map xid (login_sessions (committed d))) \<longrightarrow>
          find (\<lambda>r. xid r = sid)
            (login_sessions (committed (snd (cleanup_tick cfg now d)))) = Some S"
    using assms(3,4) by (simp add: cleanup_tick_keeps_main)
qed

theorem privileged_session_never_expires_witness:
  "check_current_user default_config 20000 (cookie_request ''A'') (quiet_db (two_sessions 20000))
     = (Return ''main-user'',
        quiet_db ((two_sessions 20000)
          \<lparr>login_sessions := [(session_A 20000)\<lparr>last_active := 20000\<rparr>, session_B 20000]\<rparr>))
   \<and> find (\<lambda>r. xid r = ''A'')
        (login_sessions (committed (snd (cleanup_tick default_config 20000
           (quiet_db (two_sessions 20000)))))) = Some (session_A 20000)"
proof -
  have after: "settled (touch ''A'' 20000 (committed (quiet_db (two_sessions 20000))))
                 (quiet_db (two_sessions 20000))
             = quiet_db ((two_sessions 20000)
                 \<lparr>login_sessions := [(session_A 20000)\<lparr>last_active := 20000\<rparr>, session_B 20000]\<rparr>)"
    by (simp add: settled_def touch_def quiet_db_def two_sessions_def
          session_A_def session_B_def)
  have owner: "user_id (session_A 20000) = ''main-user''"
    by (simp add: session_A_def)
  have quiet: "faults (quiet_db (two_sessions 20000)) = []"
    by (simp add: quiet_db_def)
  have found: "find (\<lambda>r. xid r = ''A'') (login_sessions (committed (quiet_db (two_sessions 20000))))
                 = Some (session_A 20000)"
    by (simp add: quiet_db_def two_sessions_def session_A_def)
  have cookie: "cookies (cookie_request ''A'') ''session_id'' = Some ''A''"
    by (simp add: cookie_request_def)
  have main: "is_main_user (session_A 20000)"
    by (simp add: session_A_def)
  have uniq: "distinct (map xid (login_sessions (committed (quiet_db (two_sessions 20000)))))"
    by (simp add: quiet_db_def two_sessions_def session_A_def session_B_def)
  show ?thesis
    using privileged_session_never_expires
            [OF cookie _ found main, where cfg = default_config and now = 20000]
          quiet uniq
    by (simp only: after owner) simp
qed

section \<open>Lookups of a row that is not there\<close>

text \<open>
  Whatever the body and the handler do, a \<^verbatim>\<open>finally\<close> clause that returns the local
  variable makes the statement return: an exception on its way out is dropped.
\<close>

lemma finally_return_wins:
  "fst (try_except_finally body handler return_local s)
     = Return (fst (snd (try_except_finally body handler return_local s)))"
  by (auto simp add: try_except_finally_def return_local_def
        split: prod.splits completion.splits exn.splits)

lemma get_one_family_absent:
  "find (\<lambda>f. id_family f = family_id) (families (committed d)) = None \<Longrightarrow>
   fst (get_one_family family_id d) = Return []"
  by (auto simp add: get_one_family_def stmt_defs not_subscriptable_def
        split: list.splits option.splits)

lemma get_hashed_password_absent:
  "find (\<lambda>a. id_account a = account_id) (accounts (committed d)) = None \<Longrightarrow>
   fst (get_hashed_password account_id d) = Return []"
  by (auto simp add: get_hashed_password_def stmt_defs not_subscriptable_def
        split: list.splits option.splits)

text \<open>
  C10. For a family id without a row, \<^verbatim>\<open>get_one_family\<close> returns the empty dict, and
  for an account id without a row, \<^verbatim>\<open>get_hashed_password\<close> returns the empty string:
  the \<^verbatim>\<open>TypeError\<close> of the subscript is dropped by the \<^verbatim>\<open>return\<close> in the
  \<^verbatim>\<open>finally\<close> clause. This holds whatever the store does during the call, and the
  tables are left as they were.
\<close>

theorem lookup_of_missing_row_returns_empty:
  "(find (\<lambda>f. id_family f = family_id) (families (committed d)) = None \<longrightarrow>
      fst (get_one_family family_id d) = Return []
      \<and> committed (snd (get_one_family family_id d)) = committed d)
   \<and> (find (\<lambda>a. id_account a = account_id) (accounts (committed d)) = None \<longrightarrow>
      fst (get_hashed_password account_id d) = Return []
      \<and> committed (snd (get_hashed_password account_id d)) = committed d)"
proof -
  have "committed (snd (get_one_family family_id d)) = committed d"
    by (auto simp add: get_one_family_def stmt_defs not_subscriptable_def Let_def
          split: list.splits option.splits)
  moreover have "committed (snd (get_hashed_password account_id d)) = committed d"
    by (auto simp add: get_hashed_password_def stmt_defs not_subscriptable_def Let_def
          split: list.splits option.splits)
  ultimately show ?thesis
    by (simp add: get_one_family_absent get_hashed_password_absent)
qed

theorem lookup_of_missing_row_returns_empty_witness:
  "get_one_family ''no-family'' (quiet_db (two_sessions 20000))
     = (Return [], quiet_db (two_sessions 20000))
   \<and> get_hashed_password ''no-account'' (quiet_db (two_sessions 20000))
     = (Return [], quiet_db (two_sessions 20000))"
proof -
  have no_family: "find (\<lambda>f. id_family f = ''no-family'')
                     (families (committed (quiet_db (two_sessions 20000)))) = None"
    by (simp add: quiet_db_def two_sessions_def)
  have no_account: "find (\<lambda>a. id_account a = ''no-account'')
                      (accounts (committed (quiet_db (two_sessions 20000)))) = None"
    by (simp add: quiet_db_def two_sessions_def)
  have rest1: "snd (get_one_family ''no-family'' (quiet_db (two_sessions 20000)))
                 = quiet_db (two_sessions 20000)"
    by (simp add: get_one_family_def stmt_defs not_subscriptable_def quiet_db_def
          two_sessions_def)
  have rest2: "snd (get_hashed_password ''no-account'' (quiet_db (two_sessions 20000)))
                 = quiet_db (two_sessions 20000)"
    by (simp add: get_hashed_password_def stmt_defs not_subscriptable_def quiet_db_def
          two_sessions_def)
  have "fst (get_one_family ''no-family'' (quiet_db (two_sessions 20000))) = Return []
      \<and> fst (get_hashed_password ''no-account'' (quiet_db (two_sessions 20000))) = Return []"
    using lookup_of_missing_row_returns_empty
            [where d = "quiet_db (two_sessions 20000)" and family_id = "''no-family''"
               and account_id = "''no-account''"]
          no_family no_account
    by simp
  then show ?thesis
    using rest1 rest2 by (simp add: prod_eq_iff)
qed

section \<open>Logout\<close>

lemma logout_absent:
  assumes "faults d = []"
    and "cookies request ''session_id'' = Some sid" and "sid \<noteq> []"
    and "find (\<lambda>r. xid r = sid) (login_sessions (committed d)) = None"
  shows "logout request (response, d) =
           (Raise (HTTPException 500
              [(''type'', PStr ''server error''),
               (''message'', PStr ''Failed to delete session''),
               (''input'', PDict [(''session_id'', PStr sid)])]),
            response, settled (committed d) d)"
  using assms
  by (simp add: logout_def call_def raise_exn_def delete_session_absent)

lemma logout_present:
  assumes "faults d = []"
    and "cookies request ''session_id'' = Some sid" and "sid \<noteq> []"
    and "find (\<lambda>r. xid r = sid) (login_sessions (committed d)) = Some row"
  shows "logout request (response, d) =
           (Return [(''message'', PStr ''Logout successful'')],
            response @ [delete_cookie ''session_id''],
            settled (without_session sid (committed d)) d)"
  using assms
  by (simp add: logout_def call_def add_header_def return_value_def
        delete_session_present[OF assms(1,4)])

text \<open>
  C5, as the code has it. With a \<^verbatim>\<open>session_id\<close> cookie and a store that answers:
  when the session row exists, logout deletes it, asks for the cookie to be cleared and
  returns its success message; when the row is absent, \<^verbatim>\<open>delete_session\<close> returns
  \<open>False\<close> without raising, and logout raises the 500 error "Failed to delete session",
  with the cookie left and the tables unchanged.
\<close>

theorem logout_with_cookie:
  assumes "faults d = []"
    and "cookies request ''session_id'' = Some sid" and "sid \<noteq> []"
  shows "(\<forall>row. find (\<lambda>r. xid r = sid) (login_sessions (committed d)) = Some row \<longrightarrow>
            logout request (response, d) =
              (Return [(''message'', PStr ''Logout successful'')],
               response @ [delete_cookie ''session_id''],
               settled (without_session sid (committed d)) d))
       \<and> (find (\<lambda>r. xid r = sid) (login_sessions (committed d)) = None \<longrightarrow>
            delete_session sid d = (Return False, settled (committed d) d)
            \<and> logout request (response, d) =
                (Raise (HTTPException 500
                   [(''type'', PStr ''server error''),
                    (''message'', PStr ''Failed to delete session''),
                    (''input'', PDict [(''session_id'', PStr sid)])]),
                 response, settled (committed d) d))"
  using assms
  by (simp add: logout_absent logout_present delete_session_absent)

theorem logout_with_cookie_witness:
  "logout (cookie_request ''B'') ([], quiet_db (two_sessions 20000)) =
     (Return [(''message'', PStr ''Logout successful'')],
      [delete_cookie ''session_id''],
      quiet_db ((two_sessions 20000)\<lparr>login_sessions := [session_A 20000]\<rparr>))
   \<and> delete_session ''Z'' (quiet_db (two_sessions 20000))
       = (Return False, quiet_db (two_sessions 20000))
   \<and> fst (logout (cookie_request ''Z'') ([], quiet_db (two_sessions 20000))) =
       Raise (HTTPException 500
         [(''type'', PStr ''server error''),
          (''message'', PStr ''Failed to delete session''),
          (''input'', PDict [(''session_id'', PStr ''Z'')])])"
proof -
  have quiet: "faults (quiet_db (two_sessions 20000)) = []"
    by (simp add: quiet_db_def)
  have cookie: "cookies (cookie_request ''B'') ''session_id'' = Some ''B''"
    by (simp add: cookie_request_def)
  have found: "find (\<lambda>r. xid r = ''B'') (login_sessions (committed (quiet_db (two_sessions 20000))))
                 = Some (session_B 20000)"
    by (simp add: quiet_db_def two_sessions_def session_A_def session_B_def)
  have after: "settled (without_session ''B'' (committed (quiet_db (two_sessions 20000))))
                 (quiet_db (two_sessions 20000))
             = quiet_db ((two_sessions 20000)\<lparr>login_sessions := [session_A 20000]\<rparr>)"
    by (simp add: settled_def without_session_def quiet_db_def two_sessions_def
          session_A_def session_B_def)
  have cookie': "cookies (cookie_request ''Z'') ''session_id'' = Some ''Z''"
    by (simp add: cookie_request_def)
  have absent: "find (\<lambda>r. xid r = ''Z'') (login_sessions (committed (quiet_db (two_sessions 20000))))
                  = None"
    by (simp add: quiet_db_def two_sessions_def session_A_def session_B_def)
  have same: "settled (committed (quiet_db (two_sessions 20000))) (quiet_db (two_sessions 20000))
                = quiet_db (two_sessions 20000)"
    by (simp add: settled_def quiet_db_def)
  have present_case:
    "logout (cookie_request ''B'') ([], quiet_db (two_sessions 20000)) =
       (Return [(''message'', PStr ''Logout successful'')],
        [delete_cookie ''session_id''],
        quiet_db ((two_sessions 20000)\<lparr>login_sessions := [session_A 20000]\<rparr>))"
    using logout_with_cookie [OF quiet cookie, where response = "[]"] found
    by (simp add: after)
  have absent_case:
    "delete_session ''Z'' (quiet_db (two_sessions 20000))
       = (Return False, quiet_db (two_sessions 20000))
     \<and> fst (logout (cookie_request ''Z'') ([], quiet_db (two_sessions 20000))) =
         Raise (HTTPException 500
           [(''type'', PStr ''server error''),
            (''message'', PStr ''Failed to delete session''),
            (''input'', PDict [(''session_id'', PStr ''Z'')])])"
    using logout_with_cookie [OF quiet cookie', where response = "[]"] absent
    by (simp add: same)
  show ?thesis
    using present_case absent_case by simp
qed

text \<open>
  The request of C5 on which the code does not report success: the cookie names a
  session that has no row.
\<close>

theorem logout_absent_session_counterexample:
  "logout (cookie_request ''gone'') ([], quiet_db (two_sessions 20000)) =
     (Raise (HTTPException 500
        [(''type'', PStr ''server error''),
         (''message'', PStr ''Failed to delete session''),
         (''input'', PDict [(''session_id'', PStr ''gone'')])]),
      [], quiet_db (two_sessions 20000))"
  by (simp add: logout_def call_def raise_exn_def delete_session_def stmt_defs
        cookie_request_def quiet_db_def two_sessions_def session_A_def session_B_def)


section \<open>Login\<close>

lemma get_one_account_found:
  assumes "faults d = []"
    and "find (\<lambda>a. id_account a = uid) (accounts (committed d)) = Some a"
  shows "get_one_account uid d = (Return (serialized_account a), settled (committed d) d)"
  using assms by (simp add: get_one_account_def stmt_defs settled_def)

lemma get_hashed_password_found:
  assumes "faults d = []"
    and "find (\<lambda>a. id_account a = uid) (accounts (committed d)) = Some a"
  shows "get_hashed_password uid d = (Return (password a), settled (committed d) d)"
  using assms by (simp add: get_hashed_password_def stmt_defs settled_def)

lemma create_session_quiet:
  assumes "faults d = []"
  shows "create_session deps row d =
     (Return True,
      (settled ((committed d)\<lparr>login_sessions := login_sessions (committed d) @ [row]\<rparr>) d)
        \<lparr>printed := printed d @ [''[DB] New session created: '' @ repr_session deps row]\<rparr>)"
  using assms by (simp add: create_session_def stmt_defs settled_def)

lemma serialized_account_not_empty: "serialized_account a \<noteq> []"
  by (simp add: serialized_account_def)

lemma serialized_account_role: "map_of (serialized_account a) ''role'' = Some (PRole (role a))"
  by (simp add: serialized_account_def)

lemma login_rejects:
  assumes "email_login login_data = Some e" and "e \<noteq> []"
    and "password_login login_data = Some p" and "p \<noteq> []"
    and "get_id_from_email deps e d = (Return uid, d1)" and "uid \<noteq> []"
    and "faults d1 = []"
    and "find (\<lambda>a. id_account a = uid) (accounts (committed d1)) = Some acct"
    and "\<not> verify_password deps p (Some (password acct))"
  shows "login deps now login_data (response, d) =
     (Raise (HTTPException 401
        [(''type'', PStr ''unauthorized''),
         (''message'', PStr ''Invalid email or password''),
         (''input'', PDict [(''email'', PStr e), (''password'', PStr ''<PASSWORD>'')])]),
      response, settled (committed d1) d1)"
proof -
  let ?d2 = "settled (committed d1) d1"
  have q: "faults ?d2 = []" using assms(7) by (simp add: settled_def)
  have f: "find (\<lambda>a. id_account a = uid) (accounts (committed ?d2)) = Some acct"
    using assms(8) by (simp add: settled_def)
  have s: "settled (committed ?d2) ?d2 = ?d2"
    by (simp add: settled_def)
  show ?thesis
    using assms
    by (simp add: login_def call_def raise_exn_def py_str_def Let_def unauthorized_def
          get_one_account_found[OF assms(7,8)] get_hashed_password_found[OF q f] s
          serialized_account_not_empty)
qed

lemma login_accepts:
  assumes "email_login login_data = Some e" and "e \<noteq> []"
    and "password_login login_data = Some p" and "p \<noteq> []"
    and "get_id_from_email deps e d = (Return uid, d1)" and "uid \<noteq> []"
    and "faults d1 = []"
    and "find (\<lambda>a. id_account a = uid) (accounts (committed d1)) = Some acct"
    and "verify_password deps p (Some (password acct))"
  shows "login deps now login_data (response, d) =
     (let new_session = \<lparr>xid = random_xid deps 16, user_id = uid, last_active = now,
                          is_main_user = (role acct = MAIN)\<rparr>
      in (Return [(''message'', PStr ''Login successful''),
                  (''result'', PDict
                     [(''session_id'', PStr (random_xid deps 16)),
                      (''user_data'', jsonable_encoder deps (serialized_account acct))])],
          response @ [set_cookie ''session_id'' (random_xid deps 16) True SECURE_SET SAME_SET
                        (DOMAIN_SET deps)],
          (settled ((committed d1)
              \<lparr>login_sessions := login_sessions (committed d1) @ [new_session]\<rparr>) d1)
            \<lparr>printed := printed d1
                @ [''[DB] New session created: '' @ repr_session deps new_session]\<rparr>))"
proof -
  let ?d2 = "settled (committed d1) d1"
  have q: "faults ?d2 = []" using assms(7) by (simp add: settled_def)
  have f: "find (\<lambda>a. id_account a = uid) (accounts (committed ?d2)) = Some acct"
    using assms(8) by (simp add: settled_def)
  have s: "settled (committed ?d2) ?d2 = ?d2"
    by (simp add: settled_def)
  have c: "committed ?d2 = committed d1" "printed ?d2 = printed d1"
    by (simp_all add: settled_def)
  have t: "settled X ?d2 = settled X d1" for X
    by (simp add: settled_def)
  show ?thesis
    using assms
    by (simp add: login_def call_def raise_exn_def py_str_def Let_def add_header_def
          return_value_def get_one_account_found[OF assms(7,8)]
          get_hashed_password_found[OF q f] s create_session_quiet[OF q] c t
          serialized_account_not_empty serialized_account_role)
qed

lemma check_current_user_ignores_accounts:
  "fst (check_current_user cfg now request (with_accounts acc d))
     = fst (check_current_user cfg now request d)
   \<and> login_sessions (committed (snd (check_current_user cfg now request (with_accounts acc d))))
     = login_sessions (committed (snd (check_current_user cfg now request d)))"
  by (auto simp add: check_current_user_def stmt_defs with_accounts_def Let_def
        split: list.splits option.splits)

lemma check_current_user_keeps_flags:
  "r' \<in> set (login_sessions (committed (snd (check_current_user cfg now request d)))) \<Longrightarrow>
   \<exists>r \<in> set (login_sessions (committed d)).
      xid r = xid r' \<and> user_id r = user_id r' \<and> is_main_user r = is_main_user r'"
  by (auto simp add: check_current_user_def stmt_defs Let_def
        split: list.splits option.splits if_splits)

text \<open>
  C7. A login whose email leads to an account that exists (the lookup by email returns
  its id and writes nothing, and the store answers) and whose password does not verify
  against the stored hash: the handler raises the 401 error, the response object has no
  cookie header added, and the committed tables are those from before the request.
\<close>

theorem login_wrong_password:
  assumes "email_login login_data = Some e" and "e \<noteq> []"
    and "password_login login_data = Some p" and "p \<noteq> []"
    and "get_id_from_email deps e d = (Return uid, d1)" and "uid \<noteq> []"
    and "committed d1 = committed d"
    and "faults d1 = []"
    and "find (\<lambda>a. id_account a = uid) (accounts (committed d1)) = Some acct"
    and "\<not> verify_password deps p (Some (password acct))"
  shows "login deps now login_data (response, d) =
           (Raise (HTTPException 401
              [(''type'', PStr ''unauthorized''),
               (''message'', PStr ''Invalid email or password''),
               (''input'', PDict [(''email'', PStr e), (''password'', PStr ''<PASSWORD>'')])]),
            response, settled (committed d1) d1)
       \<and> committed (snd (snd (login deps now login_data (response, d)))) = committed d"
proof -
  have "login deps now login_data (response, d) =
           (Raise (HTTPException 401
              [(''type'', PStr ''unauthorized''),
               (''message'', PStr ''Invalid email or password''),
               (''input'', PDict [(''email'', PStr e), (''password'', PStr ''<PASSWORD>'')])]),
            response, settled (committed d1) d1)"
    using assms(1-6,8-10) by (rule login_rejects)
  then show ?thesis
    using assms(7) by (simp add: settled_def)
qed

theorem login_wrong_password_witness:
  "login plain_deps 20000 (credentials ''kim@example.com'' ''guess'') ([], quiet_db two_accounts) =
     (Raise (HTTPException 401
        [(''type'', PStr ''unauthorized''),
         (''message'', PStr ''Invalid email or password''),
         (''input'', PDict [(''email'', PStr ''kim@example.com''),
                            (''password'', PStr ''<PASSWORD>'')])]),
      [], quiet_db two_accounts)"
proof -
  have e: "email_login (credentials ''kim@example.com'' ''guess'') = Some ''kim@example.com''"
    and p: "password_login (credentials ''kim@example.com'' ''guess'') = Some ''guess''"
    by (simp_all add: credentials_def)
  have lookup: "get_id_from_email plain_deps ''kim@example.com'' (quiet_db two_accounts)
                  = (Return ''u-kim'', quiet_db two_accounts)"
    by (simp add: plain_deps_def quiet_db_def two_accounts_def kim_def lee_def)
  have quiet: "faults (quiet_db two_accounts) = []"
    by (simp add: quiet_db_def)
  have found: "find (\<lambda>a. id_account a = ''u-kim'') (accounts (committed (quiet_db two_accounts)))
                 = Some kim"
    by (simp add: quiet_db_def two_accounts_def kim_def)
  have wrong: "\<not> verify_password plain_deps ''guess'' (Some (password kim))"
    by (simp add: plain_deps_def kim_def)
  have after: "settled (committed (quiet_db two_accounts)) (quiet_db two_accounts)
                 = quiet_db two_accounts"
    by (simp add: settled_def quiet_db_def)
  show ?thesis
    using login_wrong_password [OF e _ p _ lookup _ refl quiet found wrong,
            where now = 20000 and response = "[]"]
    by (simp add: after)
qed

text \<open>
  C8. A login that succeeds (the lookup by email returns the id of an account that
  exists, the password verifies, the store answers) appends one session row, whose
  \<open>is_main_user\<close> is true exactly when the role of the account is \<open>MAIN\<close>. Resolving
  does not look at the accounts: with any other accounts table it returns the same
  and leaves the same sessions, and every session it leaves has the flag it had.
\<close>

theorem login_marks_main_user:
  assumes "email_login login_data = Some e" and "e \<noteq> []"
    and "password_login login_data = Some p" and "p \<noteq> []"
    and "get_id_from_email deps e d = (Return uid, d1)" and "uid \<noteq> []"
    and "faults d1 = []"
    and "find (\<lambda>a. id_account a = uid) (accounts (committed d1)) = Some acct"
    and "verify_password deps p (Some (password acct))"
  shows "(\<exists>body. fst (login deps now login_data (response, d)) = Return body)
       \<and> fst (snd (login deps now login_data (response, d)))
           = response @ [set_cookie ''session_id'' (random_xid deps 16) True SECURE_SET SAME_SET
                           (DOMAIN_SET deps)]
       \<and> login_sessions (committed (snd (snd (login deps now login_data (response, d)))))
           = login_sessions (committed d1)
             @ [\<lparr>xid = random_xid deps 16, user_id = uid, last_active = now,
                 is_main_user = (role acct = MAIN)\<rparr>]
       \<and> (\<forall>cfg now' request d' acc.
             fst (check_current_user cfg now' request (with_accounts acc d'))
               = fst (check_current_user cfg now' request d')
             \<and> login_sessions (committed (snd (check_current_user cfg now' request (with_accounts acc d'))))
               = login_sessions (committed (snd (check_current_user cfg now' request d')))
             \<and> (\<forall>r' \<in> set (login_sessions (committed (snd (check_current_user cfg now' request d')))).
                  \<exists>r \<in> set (login_sessions (committed d')).
                    xid r = xid r' \<and> user_id r = user_id r' \<and> is_main_user r = is_main_user r'))"
proof -
  have "login deps now login_data (response, d) =
     (let new_session = \<lparr>xid = random_xid deps 16, user_id = uid, last_active = now,
                          is_main_user = (role acct = MAIN)\<rparr>
      in (Return [(''message'', PStr ''Login successful''),
                  (''result'', PDict
                     [(''session_id'', PStr (random_xid deps 16)),
                      (''user_data'', jsonable_encoder deps (serialized_account acct))])],
          response @ [set_cookie ''session_id'' (random_xid deps 16) True SECURE_SET SAME_SET
                        (DOMAIN_SET deps)],
          (settled ((committed d1)
              \<lparr>login_sessions := login_sessions (committed d1) @ [new_session]\<rparr>) d1)
            \<lparr>printed := printed d1
                @ [''[DB] New session created: '' @ repr_session deps new_session]\<rparr>))"
    using assms by (rule login_accepts)
  then have created:
    "(\<exists>body. fst (login deps now login_data (response, d)) = Return body)
       \<and> fst (snd (login deps now login_data (response, d)))
           = response @ [set_cookie ''session_id'' (random_xid deps 16) True SECURE_SET SAME_SET
                           (DOMAIN_SET deps)]
       \<and> login_sessions (committed (snd (snd (login deps now login_data (response, d)))))
           = login_sessions (committed d1)
             @ [\<lparr>xid = random_xid deps 16, user_id = uid, last_active = now,
                 is_main_user = (role acct = MAIN)\<rparr>]"
    by (simp add: Let_def settled_def)
  show ?thesis
    using created check_current_user_ignores_accounts check_current_user_keeps_flags
    by blast
qed

theorem login_marks_main_user_witness:
  "login_sessions (committed (snd (snd (login plain_deps 20000
        (credentials ''kim@example.com'' ''secret'') ([], quiet_db two_accounts)))))
     = [\<lparr>xid = ''xxxxxxxxxxxxxxxx'', user_id = ''u-kim'', last_active = 20000,
          is_main_user = True\<rparr>]
   \<and> login_sessions (committed (snd (snd (login plain_deps 20000
        (credentials ''lee@example.com'' ''hunter2'') ([], quiet_db two_accounts)))))
     = [\<lparr>xid = ''xxxxxxxxxxxxxxxx'', user_id = ''u-lee'', last_active = 20000,
          is_main_user = False\<rparr>]"
proof -
  have quiet: "faults (quiet_db two_accounts) = []"
    by (simp add: quiet_db_def)
  have none: "login_sessions (committed (quiet_db two_accounts)) = []"
    by (simp add: quiet_db_def two_accounts_def)
  have xid16: "random_xid plain_deps 16 = ''xxxxxxxxxxxxxxxx''"
    by (simp add: plain_deps_def) code_simp
  have e1: "email_login (credentials ''kim@example.com'' ''secret'') = Some ''kim@example.com''"
    and p1: "password_login (credentials ''kim@example.com'' ''secret'') = Some ''secret''"
    by (simp_all add: credentials_def)
  have lookup1: "get_id_from_email plain_deps ''kim@example.com'' (quiet_db two_accounts)
                   = (Return ''u-kim'', quiet_db two_accounts)"
    by (simp add: plain_deps_def quiet_db_def two_accounts_def kim_def lee_def)
  have found1: "find (\<lambda>a. id_account a = ''u-kim'') (accounts (committed (quiet_db two_accounts)))
                  = Some kim"
    by (simp add: quiet_db_def two_accounts_def kim_def)
  have right1: "verify_password plain_deps ''secret'' (Some (password kim))"
    by (simp add: plain_deps_def kim_def)
  have e2: "email_login (credentials ''lee@example.com'' ''hunter2'') = Some ''lee@example.com''"
    and p2: "password_login (credentials ''lee@example.com'' ''hunter2'') = Some ''hunter2''"
    by (simp_all add: credentials_def)
  have lookup2: "get_id_from_email plain_deps ''lee@example.com'' (quiet_db two_accounts)
                   = (Return ''u-lee'', quiet_db two_accounts)"
    by (simp add: plain_deps_def quiet_db_def two_accounts_def kim_def lee_def)
  have found2: "find (\<lambda>a. id_account a = ''u-lee'') (accounts (committed (quiet_db two_accounts)))
                  = Some lee"
    by (simp add: quiet_db_def two_accounts_def kim_def lee_def)
  have right2: "verify_password plain_deps ''hunter2'' (Some (password lee))"
    by (simp add: plain_deps_def lee_def)
  have main1: "(role kim = MAIN) = True" and main2: "(role lee = MAIN) = False"
    by (simp_all add: kim_def lee_def)
  have first: "login_sessions (committed (snd (snd (login plain_deps 20000
        (credentials ''kim@example.com'' ''secret'') ([], quiet_db two_accounts)))))
     = [\<lparr>xid = ''xxxxxxxxxxxxxxxx'', user_id = ''u-kim'', last_active = 20000,
          is_main_user = True\<rparr>]"
    using login_marks_main_user [OF e1 _ p1 _ lookup1 _ quiet found1 right1,
            where now = 20000 and response = "[]"]
    by (simp add: none xid16 main1)
  have second: "login_sessions (committed (snd (snd (login plain_deps 20000
        (credentials ''lee@example.com'' ''hunter2'') ([], quiet_db two_accounts)))))
     = [\<lparr>xid = ''xxxxxxxxxxxxxxxx'', user_id = ''u-lee'', last_active = 20000,
          is_main_user = False\<rparr>]"
    using login_marks_main_user [OF e2 _ p2 _ lookup2 _ quiet found2 right2,
            where now = 20000 and response = "[]"]
    by (simp add: none xid16 main2)
  show ?thesis
    using first second by simp
qed

end
